theory Spec2Isabelle
  imports Main "HOL-Library.Sublist" "HOL-Library.Char_ord" "HOL-Library.List_Lexorder"
begin

section \<open>TaskFlow (src/app.js): the domain store and its commands\<close>

text \<open>
  The class \<open>TaskFlowApp\<close> keeps four collections in memory (tasks, users, columns,
  activities) and mutates them from DOM event handlers. The embedding below follows the
  methods of the class one by one. A method that mutates \<open>this\<close> takes the application
  state and returns the new one. What the browser supplies (the clock, \<open>Math.random\<close>,
  \<open>JSON.parse\<close>, \<open>prompt\<close>, the values of the form elements) is an argument of the
  method that reads it. Rendering (\<open>renderCurrentView\<close>, \<open>renderActivityFeed\<close>, the
  modal, the form's error elements) and the writes to \<open>localStorage\<close> are not part of the
  state: no method below reads them back. On the typed collections of the commands
  rendering is taken to run through; where a collection can be any parsed value, in the
  handler of storage events, the outcome of rendering is an argument. Each call of
  \<open>showNotification\<close> is recorded in the state, in call order.

  JavaScript strings are modelled as \<open>string\<close>, one \<open>char\<close> for each UTF-16 code unit, so
  the model covers strings whose code units are below 256 (Latin-1); \<open>length\<close> is then
  JavaScript's \<open>.length\<close>, and \<open><\<close> on strings is JavaScript's comparison by code
  units.
\<close>

subsection \<open>String methods of the runtime\<close>

text \<open>\<open>String.prototype.toLowerCase\<close> on code units below 256: the letters A to Z and the
  Latin-1 capitals U+00C0 to U+00DE (without the multiplication sign U+00D7) move up by 32.\<close>

definition lowerChar :: "char \<Rightarrow> char" where
  "lowerChar c =
     (let n = (of_char c :: nat)
      in if (65 \<le> n \<and> n \<le> 90) \<or> (192 \<le> n \<and> n \<le> 222 \<and> n \<noteq> 215)
         then char_of (n + 32) else c)"

definition toLowerCase :: "string \<Rightarrow> string" where
  "toLowerCase s = map lowerChar s"

text \<open>\<open>s.includes(sub)\<close>: \<open>sub\<close> occurs in \<open>s\<close> at some position.\<close>

fun includes_str :: "string \<Rightarrow> string \<Rightarrow> bool" where
  "includes_str [] sub = (sub = [])"
| "includes_str (c # cs) sub = (take (length sub) (c # cs) = sub \<or> includes_str cs sub)"

text \<open>\<open>s.replace(pat, rep)\<close> with a string pattern: the first occurrence of \<open>pat\<close> is
  replaced, wherever it stands; without an occurrence \<open>s\<close> is returned as it is.\<close>

fun replace :: "string \<Rightarrow> string \<Rightarrow> string \<Rightarrow> string" where
  "replace [] pat rep = (if pat = [] then rep else [])"
| "replace (c # cs) pat rep =
     (if take (length pat) (c # cs) = pat then rep @ drop (length pat) (c # cs)
      else c # replace cs pat rep)"

text \<open>\<open>String.prototype.trim\<close>: the white space below 256 is U+0009 to U+000D, the space
  and the no-break space U+00A0.\<close>

definition isSpace :: "char \<Rightarrow> bool" where
  "isSpace c = (let n = (of_char c :: nat) in (9 \<le> n \<and> n \<le> 13) \<or> n = 32 \<or> n = 160)"

definition trim :: "string \<Rightarrow> string" where
  "trim s = rev (dropWhile isSpace (rev (dropWhile isSpace s)))"

text \<open>\<open>s.split(",")\<close>: the pieces between the separators; the empty string gives one
  empty piece.\<close>

fun split :: "char \<Rightarrow> string \<Rightarrow> string list" where
  "split sep [] = [Nil]"
| "split sep (c # cs) =
     (if c = sep then [] # split sep cs
      else (case split sep cs of [] \<Rightarrow> [c # Nil] | p # ps \<Rightarrow> (c # p) # ps))"

text \<open>\<open>Number.prototype.toString(radix)\<close> on an integer, as used by
  \<open>"task-" + Date.now()\<close> (radix 10) and by the colour of a new column (radix 16).
  Outside the radixes 2 to 36 the runtime throws a RangeError; the source calls it with 10
  and 16 only, and the model gives the empty string there.\<close>

definition digitChar :: "int \<Rightarrow> char" where
  "digitChar d = ''0123456789abcdefghijklmnopqrstuvwxyz'' ! nat d"

function toStringRadix :: "int \<Rightarrow> int \<Rightarrow> string" where
  "toStringRadix r n =
     (if r < 2 \<or> 36 < r then []
      else if n < 0 then CHR ''-'' # toStringRadix r (- n)
      else if n < r then [digitChar n]
      else toStringRadix r (n div r) @ [digitChar (n mod r)])"
  by pat_completeness auto
termination
proof (relation "measure (\<lambda>(r, n). if n < 0 then nat (- n) + 1 else nat n)")
  show "wf (measure (\<lambda>(r, n). if n < 0 then nat (- n) + 1 else nat n))"
    by simp
next
  fix r n :: int
  assume "\<not> (r < 2 \<or> 36 < r)" "n < 0"
  then show "((r, - n), (r, n)) \<in> measure (\<lambda>(r, n). if n < 0 then nat (- n) + 1 else nat n)"
    by simp
next
  fix r n :: int
  assume a: "\<not> (r < 2 \<or> 36 < r)" "\<not> n < 0" "\<not> n < r"
  then have "n div r < n"
    by (intro int_div_less_self) simp_all
  moreover from a have "0 \<le> n div r"
    by (simp add: pos_imp_zdiv_nonneg_iff)
  ultimately
  show "((r, n div r), (r, n)) \<in> measure (\<lambda>(r, n). if n < 0 then nat (- n) + 1 else nat n)"
    using a by simp
qed

declare toStringRadix.simps [simp del]

subsection \<open>Data model\<close>

text \<open>The objects of the four collections are records with the properties of the data
  model, each of its type; an object that lacks a required property or holds a value of
  another type is outside the model. An optional property (\<open>description\<close>, \<open>assigneeId\<close>,
  \<open>dueDate\<close>) is \<open>None\<close> when the object has no such property. Timestamps are the strings
  that \<open>toISOString\<close> returns.

  \<open>taskData\<close> holds the properties a task takes from the form (\<open>taskData\<close> in
  \<open>saveTask\<close>); a task has them all, so \<open>task\<close> extends this record.\<close>

record taskData =
  title :: string
  description :: "string option"
  priority :: string
  assigneeId :: "string option"
  dueDate :: "string option"
  columnId :: string
  tags :: "string list"
  updatedAt :: string

record task = taskData +
  t_id :: string
  status :: string
  createdAt :: string

record column =
  c_id :: string
  c_name :: string
  c_order :: int
  c_color :: string

record user =
  u_id :: string
  u_name :: string
  email :: string
  avatar :: string
  role :: string
  isOnline :: bool
  u_color :: string

record activity =
  a_id :: string
  a_type :: string
  message :: string
  userId :: string
  taskId :: "string option"
  timestamp :: string

record filters =
  f_priority :: string
  f_assignee :: string
  f_search :: string

text \<open>A call \<open>showNotification(title, message, type)\<close>.\<close>

type_synonym notification = "string \<times> string \<times> string"

text \<open>The fields of \<open>TaskFlowApp\<close> that the modelled methods read or write.
  \<open>currentUser\<close> is the first user, as \<open>initializeData\<close> and \<open>initializeMinimalData\<close> set
  it; the model covers the sessions that have one.\<close>

record app =
  currentUser :: user
  tasks :: "task list"
  users :: "user list"
  columns :: "column list"
  activities :: "activity list"
  filters :: filters
  draggedTask :: "task option"
  isInitialized :: bool
  notifications :: "notification list"

text \<open>What one handler reads from the runtime while it runs, the handler taken to run
  within one reading of the clock: \<open>Date.now()\<close>,
  \<open>new Date().toISOString()\<close>, local midnight of today in milliseconds
  (\<open>today.setHours(0, 0, 0, 0)\<close>), the time value of \<open>new Date(s)\<close>, which is
  \<open>None\<close> for an invalid date (NaN), and \<open>Math.floor(Math.random() * 16777215)\<close>.\<close>

record env =
  nowMs :: int
  nowIso :: string
  todayMs :: int
  dateMs :: "string \<Rightarrow> int option"
  random :: int

subsection \<open>Filter engine\<close>

text \<open>A string is falsy when it is empty, an optional string also when it is absent.\<close>

fun truthy :: "string option \<Rightarrow> bool" where
  "truthy None = False"
| "truthy (Some s) = (s \<noteq> [])"

definition matchesPriority :: "filters \<Rightarrow> task \<Rightarrow> bool" where
  "matchesPriority f t = (f_priority f = [] \<or> priority t = f_priority f)"

definition matchesAssignee :: "filters \<Rightarrow> task \<Rightarrow> bool" where
  "matchesAssignee f t = (f_assignee f = [] \<or> assigneeId t = Some (f_assignee f))"

definition matchesSearch :: "filters \<Rightarrow> task \<Rightarrow> bool" where
  "matchesSearch f t =
     (f_search f = [] \<or>
      includes_str (toLowerCase (title t)) (toLowerCase (f_search f)) \<or>
      (case description t of
         None \<Rightarrow> False
       | Some d \<Rightarrow> d \<noteq> [] \<and> includes_str (toLowerCase d) (toLowerCase (f_search f))))"

definition getFilteredTasks :: "app \<Rightarrow> task list" where
  "getFilteredTasks st =
     filter (\<lambda>t. matchesPriority (filters st) t \<and> matchesAssignee (filters st) t \<and>
                 matchesSearch (filters st) t)
            (tasks st)"

subsection \<open>Notifications and the activity log\<close>

definition showNotification :: "string \<Rightarrow> string \<Rightarrow> string \<Rightarrow> app \<Rightarrow> app" where
  "showNotification ttl msg typ st = st\<lparr>notifications := notifications st @ [(ttl, msg, typ)]\<rparr>"

definition addActivity :: "env \<Rightarrow> string \<Rightarrow> string \<Rightarrow> string option \<Rightarrow> app \<Rightarrow> app" where
  "addActivity e typ msg tid st =
     st\<lparr>activities :=
          \<lparr>a_id = ''activity-'' @ toStringRadix 10 (nowMs e), a_type = typ, message = msg,
           userId = u_id (currentUser st), taskId = tid, timestamp = nowIso e\<rparr>
          # activities st\<rparr>"

text \<open>The double quote of the message templates.\<close>

definition dq :: string where
  "dq = [CHR 0x22]"

subsection \<open>Commands on tasks\<close>

text \<open>\<open>this.tasks.find(p)\<close> returns the first task that satisfies \<open>p\<close>, and the handlers then
  assign to fields of that object, which is the element of the array. \<open>updateFound p g\<close>
  is this assignment: \<open>g\<close> applied to the first element that satisfies \<open>p\<close>.\<close>

fun updateFound :: "('a \<Rightarrow> bool) \<Rightarrow> ('a \<Rightarrow> 'a) \<Rightarrow> 'a list \<Rightarrow> 'a list" where
  "updateFound p g [] = []"
| "updateFound p g (x # xs) = (if p x then g x # xs else x # updateFound p g xs)"

definition moveTask :: "env \<Rightarrow> string \<Rightarrow> string \<Rightarrow> app \<Rightarrow> app" where
  "moveTask e tid newColumnId st =
     (case find (\<lambda>t. t_id t = tid) (tasks st) of
        None \<Rightarrow> st
      | Some task \<Rightarrow>
          (case find (\<lambda>c. c_id c = newColumnId) (columns st) of
             None \<Rightarrow> st
           | Some newColumn \<Rightarrow>
               let oldColumnName =
                     (case find (\<lambda>c. c_id c = columnId task) (columns st) of
                        None \<Rightarrow> ''undefined''
                      | Some c \<Rightarrow> c_name c);
                   st1 = st\<lparr>tasks :=
                            updateFound (\<lambda>t. t_id t = tid)
                              (\<lambda>t. t\<lparr>columnId := newColumnId,
                                      status := replace newColumnId ''col-'' [],
                                      updatedAt := nowIso e\<rparr>)
                              (tasks st)\<rparr>;
                   st2 = addActivity e ''task_moved''
                           (u_name (currentUser st1) @ '' moved '' @ dq @ title task @ dq @
                            '' from '' @ oldColumnName @ '' to '' @ c_name newColumn)
                           (Some tid) st1
               in showNotification ''Task Moved''
                    (dq @ title task @ dq @ '' moved to '' @ c_name newColumn) ''success'' st2))"

definition toggleTaskCompletion :: "env \<Rightarrow> string \<Rightarrow> app \<Rightarrow> app" where
  "toggleTaskCompletion e tid st =
     (case find (\<lambda>t. t_id t = tid) (tasks st) of
        None \<Rightarrow> st
      | Some task \<Rightarrow>
          let newStatus = (if status task = ''done'' then ''todo'' else ''done'');
              newColumnId = (if newStatus = ''done'' then ''col-done'' else ''col-todo'');
              st1 = st\<lparr>tasks :=
                       updateFound (\<lambda>t. t_id t = tid)
                         (\<lambda>t. t\<lparr>status := newStatus, columnId := newColumnId,
                                 updatedAt := nowIso e\<rparr>)
                         (tasks st)\<rparr>;
              st2 = addActivity e ''task_updated''
                      (u_name (currentUser st1) @ '' marked '' @ dq @ title task @ dq @
                       '' as '' @ newStatus)
                      (Some tid) st1
          in showNotification ''Task Updated''
               (dq @ title task @ dq @ '' marked as '' @ newStatus) ''success'' st2)"

subsection \<open>Drag and drop (\<open>setupDragAndDrop\<close>)\<close>

text \<open>\<open>dragstart\<close> remembers the task of the card, \<open>dragend\<close> forgets it, and \<open>drop\<close> on a
  column calls \<open>moveTask\<close> when the remembered task is in another column. The source keeps
  a reference to the task object; nothing mutates a task during a drag, so the model keeps
  the task as found at \<open>dragstart\<close>.\<close>

definition dragstart :: "string \<Rightarrow> app \<Rightarrow> app" where
  "dragstart tid st = st\<lparr>draggedTask := find (\<lambda>t. t_id t = tid) (tasks st)\<rparr>"

definition dragend :: "app \<Rightarrow> app" where
  "dragend st = st\<lparr>draggedTask := None\<rparr>"

definition drop_on :: "env \<Rightarrow> string \<Rightarrow> app \<Rightarrow> app" where
  "drop_on e colId st =
     (case draggedTask st of
        None \<Rightarrow> st
      | Some t \<Rightarrow> if columnId t \<noteq> colId then moveTask e (t_id t) colId st else st)"

subsection \<open>The task form\<close>

text \<open>The form as \<open>saveTask\<close> reads it: \<open>form.dataset.taskId\<close> and the values of the seven
  elements. \<open>document.getElementById(..)?.value || d\<close> takes \<open>d\<close> for a missing element
  as for an empty value, so a missing element is an empty value here.\<close>

record form =
  dataset_taskId :: "string option"
  task_title :: string
  task_description :: string
  task_priority :: string
  task_assignee :: string
  task_due_date :: string
  task_column :: string
  task_tags :: string

definition orElse :: "string \<Rightarrow> string \<Rightarrow> string" where
  "orElse v d = (if v = [] then d else v)"

definition readForm :: "env \<Rightarrow> form \<Rightarrow> taskData" where
  "readForm e f =
     \<lparr>title = trim (orElse (task_title f) []),
      description = Some (trim (orElse (task_description f) [])),
      priority = orElse (task_priority f) ''medium'',
      assigneeId = Some (orElse (task_assignee f) []),
      dueDate = Some (orElse (task_due_date f) []),
      columnId = orElse (task_column f) ''col-backlog'',
      tags = filter (\<lambda>tag. tag \<noteq> []) (map trim (split CHR '','' (orElse (task_tags f) []))),
      updatedAt = nowIso e\<rparr>"

text \<open>The errors object, as the list of its properties in the order they are set.\<close>

definition validateTaskForm :: "env \<Rightarrow> taskData \<Rightarrow> (string \<times> string) list" where
  "validateTaskForm e d =
     (if title d = [] then [(''title'', ''Task title is required'')]
      else if length (title d) > 100
        then [(''title'', ''Task title must be 100 characters or less'')]
      else [])
     @ (case description d of
          None \<Rightarrow> []
        | Some s \<Rightarrow>
            if s \<noteq> [] \<and> length s > 500
            then [(''description'', ''Description must be 500 characters or less'')]
            else [])
     @ (case dueDate d of
          None \<Rightarrow> []
        | Some s \<Rightarrow>
            if s \<noteq> [] then
              (case dateMs e s of
                 None \<Rightarrow> []
               | Some due \<Rightarrow>
                   if due < todayMs e
                   then [(''dueDate'', ''Due date cannot be in the past'')]
                   else [])
            else [])
     @ (if length (tags d) > 10 then [(''tags'', ''Maximum 10 tags allowed'')] else [])"

text \<open>\<open>Object.assign(task, taskData)\<close>: the eight properties of \<open>taskData\<close> are written
  over those of the task; \<open>id\<close>, \<open>status\<close> and \<open>createdAt\<close> are not among them.\<close>

definition assign :: "taskData \<Rightarrow> task \<Rightarrow> task" where
  "assign d t =
     t\<lparr>title := title d, description := description d, priority := priority d,
       assigneeId := assigneeId d, dueDate := dueDate d, columnId := columnId d,
       tags := tags d, updatedAt := updatedAt d\<rparr>"

definition newTask :: "env \<Rightarrow> taskData \<Rightarrow> task" where
  "newTask e d =
     \<lparr>title = title d, description = description d, priority = priority d,
      assigneeId = assigneeId d, dueDate = dueDate d, columnId = columnId d,
      tags = tags d, updatedAt = updatedAt d,
      t_id = ''task-'' @ toStringRadix 10 (nowMs e),
      status = replace (columnId d) ''col-'' [],
      createdAt = nowIso e\<rparr>"

text \<open>\<open>saveTask\<close>. The form argument is \<open>None\<close> when the document has no task form. With
  a validation error it shows the errors and returns before anything is assigned.\<close>

definition saveTask :: "env \<Rightarrow> form option \<Rightarrow> app \<Rightarrow> app" where
  "saveTask e fo st =
     (case fo of
        None \<Rightarrow> st
      | Some f \<Rightarrow>
          let isEditing = truthy (dataset_taskId f);
              d = readForm e f;
              errors = validateTaskForm e d
          in if errors \<noteq> []
             then showNotification ''Validation Error'' ''Please fix the errors in the form''
                    ''error'' st
             else if isEditing then
               (case find (\<lambda>t. Some (t_id t) = dataset_taskId f) (tasks st) of
                  None \<Rightarrow> st
                | Some task \<Rightarrow>
                    let st1 = st\<lparr>tasks :=
                                 updateFound (\<lambda>t. Some (t_id t) = dataset_taskId f) (assign d)
                                   (tasks st)\<rparr>;
                        st2 = addActivity e ''task_updated''
                                (u_name (currentUser st1) @ '' updated '' @ dq @ title d @ dq)
                                (dataset_taskId f) st1
                    in showNotification ''Task Updated''
                         (dq @ title d @ dq @ '' has been updated'') ''success'' st2)
             else
               let t = newTask e d;
                   st1 = st\<lparr>tasks := tasks st @ [t]\<rparr>;
                   st2 = addActivity e ''task_created''
                           (u_name (currentUser st1) @ '' created '' @ dq @ title t @ dq)
                           (Some (t_id t)) st1
               in showNotification ''Task Created''
                    (dq @ title t @ dq @ '' has been created'') ''success'' st2)"

subsection \<open>Columns\<close>

text \<open>\<open>addColumn\<close>. The argument \<open>answer\<close> is what \<open>prompt\<close> returned, \<open>None\<close> when the
  dialog was cancelled.\<close>

definition addColumn :: "env \<Rightarrow> string option \<Rightarrow> app \<Rightarrow> app" where
  "addColumn e answer st =
     (case answer of
        None \<Rightarrow> st
      | Some name \<Rightarrow>
          if name \<noteq> [] \<and> trim name \<noteq> [] then
            let newColumn =
                  \<lparr>c_id = ''col-'' @ toStringRadix 10 (nowMs e), c_name = trim name,
                   c_order = int (length (columns st)),
                   c_color = ''#'' @ toStringRadix 16 (random e)\<rparr>;
                st1 = st\<lparr>columns := columns st @ [newColumn]\<rparr>
            in showNotification ''Column Added''
                 (dq @ name @ dq @ '' column has been added'') ''success'' st1
          else st)"

subsection \<open>JSON values and the collections as JSON\<close>

text \<open>The values that \<open>JSON.parse\<close> returns and \<open>JSON.stringify\<close> prints, with the
  integers for the numbers (the data model has no other number). An object is the
  list of its properties; \<open>JSON.parse\<close> returns objects without a repeated key. The text of
  a document is the runtime's business: \<open>JSON.parse\<close> and \<open>JSON.stringify\<close> are arguments
  of the methods that call them, and \<open>JSON.parse\<close> returns \<open>None\<close> where it throws a
  SyntaxError.\<close>

datatype json =
  JNull
| JBool bool
| JNum int
| JStr string
| JArr "json list"
| JObj "(string \<times> json) list"

text \<open>The collections of the state are typed, the arrays of a document are not. An array
  of a document is stored by reading each element back as a record: a property of the data
  model must have its type, an optional one may be missing. Where an element is not an
  object of the data model the document has no image in the typed state, and \<open>importData\<close>
  returns \<open>None\<close>.\<close>

definition strField :: "(string \<times> json) list \<Rightarrow> string \<Rightarrow> string option" where
  "strField kvs k = (case map_of kvs k of Some (JStr v) \<Rightarrow> Some v | _ \<Rightarrow> None)"

definition optStrField :: "(string \<times> json) list \<Rightarrow> string \<Rightarrow> string option option" where
  "optStrField kvs k =
     (case map_of kvs k of
        None \<Rightarrow> Some None
      | Some (JStr v) \<Rightarrow> Some (Some v)
      | Some _ \<Rightarrow> None)"

definition nullableStrField :: "(string \<times> json) list \<Rightarrow> string \<Rightarrow> string option option" where
  "nullableStrField kvs k =
     (case map_of kvs k of
        None \<Rightarrow> Some None
      | Some JNull \<Rightarrow> Some None
      | Some (JStr v) \<Rightarrow> Some (Some v)
      | Some _ \<Rightarrow> None)"

definition numField :: "(string \<times> json) list \<Rightarrow> string \<Rightarrow> int option" where
  "numField kvs k = (case map_of kvs k of Some (JNum n) \<Rightarrow> Some n | _ \<Rightarrow> None)"

definition boolField :: "(string \<times> json) list \<Rightarrow> string \<Rightarrow> bool option" where
  "boolField kvs k = (case map_of kvs k of Some (JBool b) \<Rightarrow> Some b | _ \<Rightarrow> None)"

fun str_of_json :: "json \<Rightarrow> string option" where
  "str_of_json (JStr v) = Some v"
| "str_of_json _ = None"

definition strArrayField :: "(string \<times> json) list \<Rightarrow> string \<Rightarrow> string list option" where
  "strArrayField kvs k =
     (case map_of kvs k of Some (JArr xs) \<Rightarrow> those (map str_of_json xs) | _ \<Rightarrow> None)"

definition optProp :: "string \<Rightarrow> string option \<Rightarrow> (string \<times> json) list" where
  "optProp k v = (case v of None \<Rightarrow> [] | Some x \<Rightarrow> [(k, JStr x)])"

definition task_to_json :: "task \<Rightarrow> json" where
  "task_to_json t =
     JObj ([(''id'', JStr (t_id t)), (''title'', JStr (title t))]
           @ optProp ''description'' (description t)
           @ [(''status'', JStr (status t)), (''priority'', JStr (priority t))]
           @ optProp ''assigneeId'' (assigneeId t)
           @ optProp ''dueDate'' (dueDate t)
           @ [(''createdAt'', JStr (createdAt t)), (''updatedAt'', JStr (updatedAt t)),
              (''tags'', JArr (map JStr (tags t))), (''columnId'', JStr (columnId t))])"

fun task_of_json :: "json \<Rightarrow> task option" where
  "task_of_json (JObj kvs) =
     Option.bind (strField kvs ''id'') (\<lambda>i.
     Option.bind (strField kvs ''title'') (\<lambda>ti.
     Option.bind (optStrField kvs ''description'') (\<lambda>de.
     Option.bind (strField kvs ''status'') (\<lambda>s.
     Option.bind (strField kvs ''priority'') (\<lambda>p.
     Option.bind (optStrField kvs ''assigneeId'') (\<lambda>a.
     Option.bind (optStrField kvs ''dueDate'') (\<lambda>du.
     Option.bind (strField kvs ''createdAt'') (\<lambda>c.
     Option.bind (strField kvs ''updatedAt'') (\<lambda>u.
     Option.bind (strArrayField kvs ''tags'') (\<lambda>tg.
     Option.bind (strField kvs ''columnId'') (\<lambda>co.
       Some \<lparr>title = ti, description = de, priority = p, assigneeId = a, dueDate = du,
             columnId = co, tags = tg, updatedAt = u, t_id = i, status = s,
             createdAt = c\<rparr>)))))))))))"
| "task_of_json _ = None"

definition column_to_json :: "column \<Rightarrow> json" where
  "column_to_json c =
     JObj [(''id'', JStr (c_id c)), (''name'', JStr (c_name c)), (''order'', JNum (c_order c)),
           (''color'', JStr (c_color c))]"

fun column_of_json :: "json \<Rightarrow> column option" where
  "column_of_json (JObj kvs) =
     Option.bind (strField kvs ''id'') (\<lambda>i.
     Option.bind (strField kvs ''name'') (\<lambda>n.
     Option.bind (numField kvs ''order'') (\<lambda>k.
     Option.bind (strField kvs ''color'') (\<lambda>c.
       Some \<lparr>c_id = i, c_name = n, c_order = k, c_color = c\<rparr>))))"
| "column_of_json _ = None"

definition user_to_json :: "user \<Rightarrow> json" where
  "user_to_json u =
     JObj [(''id'', JStr (u_id u)), (''name'', JStr (u_name u)), (''email'', JStr (email u)),
           (''avatar'', JStr (avatar u)), (''role'', JStr (role u)),
           (''isOnline'', JBool (isOnline u)), (''color'', JStr (u_color u))]"

fun user_of_json :: "json \<Rightarrow> user option" where
  "user_of_json (JObj kvs) =
     Option.bind (strField kvs ''id'') (\<lambda>i.
     Option.bind (strField kvs ''name'') (\<lambda>n.
     Option.bind (strField kvs ''email'') (\<lambda>m.
     Option.bind (strField kvs ''avatar'') (\<lambda>a.
     Option.bind (strField kvs ''role'') (\<lambda>r.
     Option.bind (boolField kvs ''isOnline'') (\<lambda>b.
     Option.bind (strField kvs ''color'') (\<lambda>c.
       Some \<lparr>u_id = i, u_name = n, email = m, avatar = a, role = r, isOnline = b,
             u_color = c\<rparr>)))))))"
| "user_of_json _ = None"

definition activity_to_json :: "activity \<Rightarrow> json" where
  "activity_to_json a =
     JObj [(''id'', JStr (a_id a)), (''type'', JStr (a_type a)),
           (''message'', JStr (message a)), (''userId'', JStr (userId a)),
           (''taskId'', (case taskId a of None \<Rightarrow> JNull | Some t \<Rightarrow> JStr t)),
           (''timestamp'', JStr (timestamp a))]"

fun activity_of_json :: "json \<Rightarrow> activity option" where
  "activity_of_json (JObj kvs) =
     Option.bind (strField kvs ''id'') (\<lambda>i.
     Option.bind (strField kvs ''type'') (\<lambda>ty.
     Option.bind (strField kvs ''message'') (\<lambda>m.
     Option.bind (strField kvs ''userId'') (\<lambda>u.
     Option.bind (nullableStrField kvs ''taskId'') (\<lambda>t.
     Option.bind (strField kvs ''timestamp'') (\<lambda>ts.
       Some \<lparr>a_id = i, a_type = ty, message = m, userId = u, taskId = t,
             timestamp = ts\<rparr>))))))"
| "activity_of_json _ = None"

subsection \<open>Export and import\<close>

text \<open>The object that \<open>exportData\<close> hands to \<open>JSON.stringify\<close>.\<close>

definition exportDoc :: "env \<Rightarrow> app \<Rightarrow> json" where
  "exportDoc e st =
     JObj [(''tasks'', JArr (map task_to_json (tasks st))),
           (''columns'', JArr (map column_to_json (columns st))),
           (''users'', JArr (map user_to_json (users st))),
           (''activities'', JArr (map activity_to_json (activities st))),
           (''exportDate'', JStr (nowIso e)),
           (''version'', JStr ''1.0'')]"

text \<open>\<open>exportData\<close> returns the text of the downloaded file with the new state.\<close>

definition exportData :: "(json \<Rightarrow> string) \<Rightarrow> env \<Rightarrow> app \<Rightarrow> string \<times> app" where
  "exportData stringify e st =
     (stringify (exportDoc e st),
      showNotification ''Export Successful'' ''Data has been exported successfully''
        ''success'' st)"

text \<open>\<open>x && Array.isArray(x)\<close> for a property \<open>x\<close> of the parsed document: the elements
  when the property is there and is an array (an empty array is truthy).\<close>

fun arrayProp :: "json \<Rightarrow> string \<Rightarrow> json list option" where
  "arrayProp (JObj kvs) k = (case map_of kvs k of Some (JArr xs) \<Rightarrow> Some xs | _ \<Rightarrow> None)"
| "arrayProp _ k = None"

text \<open>The handler of \<open>reader.onload\<close> in \<open>importData\<close>, on the text of the file. Reading a
  property of \<open>null\<close> throws a TypeError, which the handler catches like a SyntaxError.\<close>

definition importData :: "(string \<Rightarrow> json option) \<Rightarrow> string \<Rightarrow> app \<Rightarrow> app option" where
  "importData parse text st =
     (case parse text of
        None \<Rightarrow> Some (showNotification ''Import Failed'' ''Invalid file format'' ''error'' st)
      | Some JNull \<Rightarrow>
          Some (showNotification ''Import Failed'' ''Invalid file format'' ''error'' st)
      | Some doc \<Rightarrow>
          Option.bind
            (case arrayProp doc ''tasks'' of
               None \<Rightarrow> Some st
             | Some xs \<Rightarrow> map_option (\<lambda>ts. st\<lparr>tasks := ts\<rparr>) (those (map task_of_json xs)))
            (\<lambda>st1.
          Option.bind
            (case arrayProp doc ''columns'' of
               None \<Rightarrow> Some st1
             | Some xs \<Rightarrow>
                 map_option (\<lambda>cs. st1\<lparr>columns := cs\<rparr>) (those (map column_of_json xs)))
            (\<lambda>st2.
          Option.bind
            (case arrayProp doc ''users'' of
               None \<Rightarrow> Some st2
             | Some xs \<Rightarrow> map_option (\<lambda>us. st2\<lparr>users := us\<rparr>) (those (map user_of_json xs)))
            (\<lambda>st3.
          Some (showNotification ''Import Successful'' ''Data has been imported successfully''
                  ''success'' st3)))))"

subsection \<open>Cross-tab updates\<close>






text \<open>What the document does to the two render calls of the handler: whether the body of
  \<open>renderCurrentView\<close> runs through on the new state, and whether \<open>renderActivityFeed\<close>
  returns. Both return at once where the document lacks their element, and both can
  throw on a collection that is no array.\<close>

record page =
  viewRenders :: bool
  feedRenders :: bool




subsection \<open>The life of a session\<close>






subsection \<open>Seed data\<close>

text \<open>The state after the constructor and \<open>initializeMinimalData\<close>.\<close>

definition initializeMinimalData :: "env \<Rightarrow> app" where
  "initializeMinimalData e =
     (let u = \<lparr>u_id = ''user-1'', u_name = ''Deepanshu'', email = ''Deepanshu@company.com'',
               avatar = ''DC'', role = ''Designer'', isOnline = True, u_color = ''#1FB8CD''\<rparr>
      in \<lparr>currentUser = u,
          tasks = [\<lparr>title = ''Welcome Task'', description = Some ''Welcome to TaskFlow!'',
                    priority = ''medium'', assigneeId = Some ''user-1'', dueDate = None,
                    columnId = ''col-todo'', tags = [''welcome''], updatedAt = nowIso e,
                    t_id = ''task-1'', status = ''todo'', createdAt = nowIso e\<rparr>],
          users = [u],
          columns = [\<lparr>c_id = ''col-todo'', c_name = ''To Do'', c_order = 0,
                      c_color = ''#3b82f6''\<rparr>,
                     \<lparr>c_id = ''col-done'', c_name = ''Done'', c_order = 1,
                      c_color = ''#10b981''\<rparr>],
          activities = [],
          filters = \<lparr>f_priority = [], f_assignee = [], f_search = []\<rparr>,
          draggedTask = None,
          isInitialized = False,
          notifications = []\<rparr>)"

text \<open>The sample columns and tasks of \<open>initializeData\<close>, used when the storage is empty.\<close>

definition sampleColumns :: "column list" where
  "sampleColumns =
     [\<lparr>c_id = ''col-backlog'', c_name = ''Backlog'', c_order = 0, c_color = ''#64748b''\<rparr>,
      \<lparr>c_id = ''col-todo'', c_name = ''To Do'', c_order = 1, c_color = ''#3b82f6''\<rparr>,
      \<lparr>c_id = ''col-in-progress'', c_name = ''In Progress'', c_order = 2,
       c_color = ''#f59e0b''\<rparr>,
      \<lparr>c_id = ''col-review'', c_name = ''Review'', c_order = 3, c_color = ''#8b5cf6''\<rparr>,
      \<lparr>c_id = ''col-done'', c_name = ''Done'', c_order = 4, c_color = ''#10b981''\<rparr>]"

definition sampleTasks :: "task list" where
  "sampleTasks =
     [\<lparr>title = ''Design Landing Page'',
       description =
         Some ''Create a modern, responsive landing page for the new product launch'',
       priority = ''high'', assigneeId = Some ''user-1'', dueDate = Some ''2025-08-15'',
       columnId = ''col-in-progress'', tags = [''design'', ''frontend''],
       updatedAt = ''2025-08-02T14:30:00Z'', t_id = ''task-1'', status = ''in-progress'',
       createdAt = ''2025-08-01T10:00:00Z''\<rparr>,
      \<lparr>title = ''API Integration'',
       description = Some ''Integrate payment gateway API with the checkout system'',
       priority = ''critical'', assigneeId = Some ''user-2'', dueDate = Some ''2025-08-10'',
       columnId = ''col-todo'', tags = [''backend'', ''api''],
       updatedAt = ''2025-08-01T09:00:00Z'', t_id = ''task-2'', status = ''todo'',
       createdAt = ''2025-08-01T09:00:00Z''\<rparr>,
      \<lparr>title = ''User Testing'',
       description = Some ''Conduct usability testing with 10 target users'',
       priority = ''medium'', assigneeId = Some ''user-3'', dueDate = Some ''2025-08-20'',
       columnId = ''col-review'', tags = [''testing'', ''ux''],
       updatedAt = ''2025-08-02T16:00:00Z'', t_id = ''task-3'', status = ''review'',
       createdAt = ''2025-07-28T11:00:00Z''\<rparr>,
      \<lparr>title = ''Database Optimization'',
       description = Some ''Optimize database queries for better performance'',
       priority = ''low'', assigneeId = Some ''user-2'', dueDate = Some ''2025-08-25'',
       columnId = ''col-backlog'', tags = [''backend'', ''performance''],
       updatedAt = ''2025-08-01T08:00:00Z'', t_id = ''task-4'', status = ''backlog'',
       createdAt = ''2025-08-01T08:00:00Z''\<rparr>,
      \<lparr>title = ''Mobile App Testing'',
       description = Some ''Complete testing of mobile application features'',
       priority = ''medium'', assigneeId = Some ''user-3'', dueDate = Some ''2025-08-05'',
       columnId = ''col-done'', tags = [''mobile'', ''testing''],
       updatedAt = ''2025-08-01T16:00:00Z'', t_id = ''task-5'', status = ''done'',
       createdAt = ''2025-07-25T10:00:00Z''\<rparr>]"

section \<open>Notions of the specification\<close>

subsection \<open>Filter engine: what the specification says\<close>

text \<open>The search text is a case-insensitive substring of \<open>s\<close> when some window of \<open>s\<close>, as
  long as the search text, agrees with it letter by letter up to case.\<close>

definition ciSubstring :: "string \<Rightarrow> string \<Rightarrow> bool" where
  "ciSubstring sub s =
     (\<exists>i\<in>{0..length s}.
        list_all2 (\<lambda>a b. lowerChar a = lowerChar b) (take (length sub) (drop i s)) sub)"

text \<open>The three criteria in the specification's words: each one is empty or satisfied.\<close>

definition specMatches :: "filters \<Rightarrow> task \<Rightarrow> bool" where
  "specMatches c t =
     ((f_priority c = [] \<or> priority t = f_priority c) \<and>
      (f_assignee c = [] \<or> assigneeId t = Some (f_assignee c)) \<and>
      (f_search c = [] \<or> ciSubstring (f_search c) (title t) \<or>
       (case description t of None \<Rightarrow> False | Some d \<Rightarrow> ciSubstring (f_search c) d)))"

subsection \<open>Validation: what the specification says\<close>

text \<open>The rules of the specification for the data of a task form: the title is required
  and has at most 100 characters, a description has at most 500, a due date is not before
  today, and there are at most 10 tags. The dates are compared as the runtime gives them:
  the time value of \<open>new Date(s)\<close> against local midnight of today, and a string that is no
  date has no time value to compare.\<close>

definition titleValid :: "taskData \<Rightarrow> bool" where
  "titleValid d = (title d \<noteq> [] \<and> length (title d) \<le> 100)"

definition restValid :: "env \<Rightarrow> taskData \<Rightarrow> bool" where
  "restValid e d =
     ((case description d of None \<Rightarrow> True | Some s \<Rightarrow> length s \<le> 500) \<and>
      (case dueDate d of
         None \<Rightarrow> True
       | Some s \<Rightarrow> s = [] \<or> (case dateMs e s of None \<Rightarrow> True | Some due \<Rightarrow> todayMs e \<le> due)) \<and>
      length (tags d) \<le> 10)"

definition specValid :: "env \<Rightarrow> taskData \<Rightarrow> bool" where
  "specValid e d = (titleValid d \<and> restValid e d)"

subsection \<open>The status invariant: what the specification says\<close>

text \<open>The status of a task is its column id with the fixed prefix \<open>col-\<close> stripped.\<close>

definition stripPrefix :: "string \<Rightarrow> string \<Rightarrow> string" where
  "stripPrefix p s = (if take (length p) s = p then drop (length p) s else s)"

definition statusDerived :: "task \<Rightarrow> bool" where
  "statusDerived t = (status t = stripPrefix ''col-'' (columnId t))"

section \<open>Data for the examples\<close>

subsection \<open>Clock readings\<close>

text \<open>A clock reading and a date table for the examples: 2025-07-31T22:13:20Z, with
  the local midnight of a browser on UTC.\<close>

definition sampleEnv :: env where
  "sampleEnv =
     \<lparr>nowMs = 1754000000000, nowIso = ''2025-07-31T22:13:20.000Z'',
      todayMs = 1753920000000,
      dateMs = (\<lambda>s. if s = ''2025-08-15'' then Some 1755216000000
                     else if s = ''2025-07-01'' then Some 1751328000000 else None),
      random = 3900150\<rparr>"

text \<open>One second after \<open>sampleEnv\<close>.\<close>

definition laterEnv :: env where
  "laterEnv = sampleEnv\<lparr>nowMs := 1754000001000, nowIso := ''2025-07-31T22:13:21.000Z''\<rparr>"

subsection \<open>States\<close>

text \<open>The sample tasks under a search for \<open>GATEWAY\<close> among the tasks of \<open>user-2\<close>.\<close>

definition searchApp :: app where
  "searchApp =
     (initializeMinimalData sampleEnv)
       \<lparr>tasks := sampleTasks,
        filters := \<lparr>f_priority = [], f_assignee = ''user-2'', f_search = ''GATEWAY''\<rparr>\<rparr>"

text \<open>A board with the three columns \<open>col-backlog\<close>, \<open>col-todo\<close>, \<open>col-done\<close>.\<close>

definition threeColumnApp :: app where
  "threeColumnApp =
     (initializeMinimalData sampleEnv)
       \<lparr>columns := [sampleColumns ! 0, sampleColumns ! 1, sampleColumns ! 4]\<rparr>"

text \<open>The sample tasks on a board that has no column \<open>col-done\<close>.\<close>

definition noDoneApp :: app where
  "noDoneApp =
     (initializeMinimalData sampleEnv)\<lparr>tasks := sampleTasks, columns := take 4 sampleColumns\<rparr>"

text \<open>The sample board of a session whose initialization is complete.\<close>

definition runningApp :: app where
  "runningApp =
     (initializeMinimalData sampleEnv)
       \<lparr>tasks := sampleTasks, columns := sampleColumns, isInitialized := True\<rparr>"

subsection \<open>Forms\<close>

text \<open>Forms for the examples: an edit of \<open>task-1\<close> with every field but the title left
  blank, the same edit as \<open>populateTaskForm\<close> fills the form for the welcome task with the
  column changed to \<open>col-done\<close>, and a new task whose title is \<open>n\<close> letters long.\<close>

definition blankEditForm :: form where
  "blankEditForm =
     \<lparr>dataset_taskId = Some ''task-1'', task_title = ''Welcome Task'', task_description = [],
      task_priority = [], task_assignee = [], task_due_date = [], task_column = [],
      task_tags = []\<rparr>"

definition columnEditForm :: form where
  "columnEditForm =
     \<lparr>dataset_taskId = Some ''task-1'', task_title = ''Welcome Task'',
      task_description = ''Welcome to TaskFlow!'', task_priority = ''medium'',
      task_assignee = ''user-1'', task_due_date = [], task_column = ''col-done'',
      task_tags = ''welcome''\<rparr>"

definition titleForm :: "nat \<Rightarrow> form" where
  "titleForm n =
     \<lparr>dataset_taskId = None, task_title = replicate n CHR ''a'', task_description = [],
      task_priority = ''medium'', task_assignee = [], task_due_date = [],
      task_column = ''col-todo'', task_tags = []\<rparr>"

subsection \<open>JSON texts\<close>

text \<open>The runtime's JSON functions on the texts of the examples, each text written as a
  short name: the backup of \<open>runningApp\<close>, an array of the first two sample tasks, the
  empty array. Every other text is malformed for \<open>sampleParse\<close>.\<close>

definition sampleStringify :: "json \<Rightarrow> string" where
  "sampleStringify d = (if d = exportDoc sampleEnv runningApp then ''backup-1'' else ''other'')"

definition sampleParse :: "string \<Rightarrow> json option" where
  "sampleParse s =
     (if s = ''[]'' then Some (JArr [])
      else if s = ''backup-1'' then Some (exportDoc sampleEnv runningApp)
      else if s = ''tasks-1'' then Some (JArr (map task_to_json (take 2 sampleTasks)))
      else None)"

subsection \<open>A session and a document\<close>



section \<open>The properties of the specification\<close>

subsection \<open>Filter engine\<close>

lemma list_all2_lower: "list_all2 (\<lambda>a b. f a = f b) xs ys \<longleftrightarrow> map f xs = map f ys"
  by (induction xs arbitrary: ys) (auto simp: list_all2_Cons1 map_eq_Cons_conv)

lemma ciSubstring_Nil: "ciSubstring sub [] \<longleftrightarrow> sub = []"
  by (auto simp: ciSubstring_def)

lemma bex_upto_Suc:
  "(\<exists>i\<in>{0..Suc n}. P i) \<longleftrightarrow> P 0 \<or> (\<exists>j\<in>{0..n}. P (Suc j))"
proof
  assume "\<exists>i\<in>{0..Suc n}. P i"
  then obtain i where i: "i \<le> Suc n" "P i" by auto
  show "P 0 \<or> (\<exists>j\<in>{0..n}. P (Suc j))"
  proof (cases i)
    case 0
    with i show ?thesis by simp
  next
    case (Suc j)
    with i have "j \<in> {0..n}" "P (Suc j)" by simp_all
    then show ?thesis by blast
  qed
next
  assume "P 0 \<or> (\<exists>j\<in>{0..n}. P (Suc j))"
  then show "\<exists>i\<in>{0..Suc n}. P i"
  proof
    assume "P 0"
    then show ?thesis by force
  next
    assume "\<exists>j\<in>{0..n}. P (Suc j)"
    then obtain j where "j \<le> n" "P (Suc j)" by auto
    then have "Suc j \<in> {0..Suc n}" by simp
    with \<open>P (Suc j)\<close> show ?thesis by blast
  qed
qed

lemma ciSubstring_Cons:
  "ciSubstring sub (c # cs) \<longleftrightarrow>
     map lowerChar (take (length sub) (c # cs)) = map lowerChar sub \<or> ciSubstring sub cs"
  unfolding ciSubstring_def list_all2_lower length_Cons bex_upto_Suc
  by simp

lemma includes_ci: "includes_str (toLowerCase s) (toLowerCase sub) \<longleftrightarrow> ciSubstring sub s"
proof (induction s)
  case Nil
  then show ?case by (simp add: toLowerCase_def ciSubstring_Nil)
next
  case (Cons c cs)
  have "take (length sub) (map lowerChar (c # cs)) = map lowerChar (take (length sub) (c # cs))"
    by (simp only: take_map)
  with Cons show ?case
    by (simp add: toLowerCase_def ciSubstring_Cons del: take_Suc_Cons)
qed

lemma matchesSearch_spec:
  "matchesPriority c t \<and> matchesAssignee c t \<and> matchesSearch c t \<longleftrightarrow> specMatches c t"
  by (auto simp: matchesPriority_def matchesAssignee_def matchesSearch_def specMatches_def
      includes_ci ciSubstring_Nil split: option.splits)


text \<open>
  C3. For every task list and every filter criteria, \<open>getFilteredTasks\<close> returns exactly
  the tasks that satisfy the three criteria of the specification (each criterion empty, or
  the priority equal, the assignee equal, the search text a case-insensitive substring of
  the title or of the description), in the order of the task list, as a subsequence of it.
  The function only reads the state: \<open>Array.prototype.filter\<close> builds a new array, and the
  model returns the list without a new state.
\<close>

theorem getFilteredTasks_spec:
  "getFilteredTasks st = filter (specMatches (filters st)) (tasks st) \<and>
   subseq (getFilteredTasks st) (tasks st) \<and>
   (\<forall>t\<in>set (getFilteredTasks st). specMatches (filters st) t)"
  by (simp add: getFilteredTasks_def matchesSearch_spec)


text \<open>On the sample tasks the search for \<open>GATEWAY\<close> finds the one task that has the word,
  in lower case, in its description.\<close>

theorem getFilteredTasks_spec_witness:
  "map t_id (getFilteredTasks searchApp) = [''task-2''] \<and>
   getFilteredTasks searchApp = filter (specMatches (filters searchApp)) (tasks searchApp) \<and>
   subseq (getFilteredTasks searchApp) (tasks searchApp)"
proof -
  have "map t_id (getFilteredTasks searchApp) = [''task-2'']"
    by code_simp
  with getFilteredTasks_spec [of searchApp] show ?thesis by blast
qed

subsection \<open>Assignments to the task that \<open>find\<close> returned\<close>

lemma find_updateFound:
  "(\<And>x. p x \<Longrightarrow> p (g x)) \<Longrightarrow> find p (updateFound p g xs) = map_option g (find p xs)"
  by (induction xs) auto

lemma updateFound_split:
  "find p xs = Some x \<Longrightarrow>
   \<exists>pre post. xs = pre @ x # post \<and> (\<forall>y\<in>set pre. \<not> p y) \<and>
              updateFound p g xs = pre @ g x # post"
proof (induction xs)
  case Nil
  then show ?case by simp
next
  case (Cons a xs)
  show ?case
  proof (cases "p a")
    case True
    with Cons.prems have "a = x" by simp
    with True have "a # xs = [] @ x # xs \<and> (\<forall>y\<in>set []. \<not> p y) \<and>
        updateFound p g (a # xs) = [] @ g x # xs"
      by simp
    then show ?thesis by blast
  next
    case False
    with Cons.prems have "find p xs = Some x" by simp
    from Cons.IH [OF this] obtain pre post where
      "xs = pre @ x # post" "\<forall>y\<in>set pre. \<not> p y" "updateFound p g xs = pre @ g x # post"
      by blast
    with False have "a # xs = (a # pre) @ x # post \<and> (\<forall>y\<in>set (a # pre). \<not> p y) \<and>
        updateFound p g (a # xs) = (a # pre) @ g x # post"
      by simp
    then show ?thesis by blast
  qed
qed

lemma updateFound_None: "find p xs = None \<Longrightarrow> updateFound p g xs = xs"
  by (induction xs) (auto split: if_splits)

lemma trim_Nil: "trim [] = []"
  by (simp add: trim_def)

subsection \<open>Columns\<close>

text \<open>
  C8. \<open>addColumn\<close> with a name that is not empty after trimming appends exactly one column,
  whose order is the number of columns before the call and whose name is the trimmed
  answer; nothing else of the state changes but the notification of the success. With a
  name that is blank after trimming, or with a cancelled prompt, the state is returned as
  it was: the columns are unchanged and nothing is notified.
\<close>

theorem addColumn_spec:
  "(trim name \<noteq> [] \<longrightarrow>
      addColumn e (Some name) st =
        showNotification ''Column Added'' (dq @ name @ dq @ '' column has been added'')
          ''success''
          (st\<lparr>columns := columns st @
                 [\<lparr>c_id = ''col-'' @ toStringRadix 10 (nowMs e), c_name = trim name,
                   c_order = int (length (columns st)),
                   c_color = ''#'' @ toStringRadix 16 (random e)\<rparr>]\<rparr>)) \<and>
   (trim name = [] \<longrightarrow> addColumn e (Some name) st = st) \<and>
   addColumn e None st = st"
  by (auto simp: addColumn_def Let_def trim_Nil)

text \<open>On the three-column board, whose columns have the orders 0, 1 and 4, the column
  \<open>Blocked\<close> gets the order 3; a blank answer after that changes nothing.\<close>

theorem addColumn_spec_witness:
  "trim ''Blocked'' \<noteq> [] \<and>
   columns (addColumn sampleEnv (Some ''Blocked'') threeColumnApp) =
     columns threeColumnApp @
       [\<lparr>c_id = ''col-1754000000000'', c_name = ''Blocked'', c_order = 3,
         c_color = ''#3b82f6''\<rparr>] \<and>
   trim ''  '' = [] \<and>
   addColumn sampleEnv (Some ''  '')
     (addColumn sampleEnv (Some ''Blocked'') threeColumnApp) =
   addColumn sampleEnv (Some ''Blocked'') threeColumnApp"
proof -
  have h1: "trim ''Blocked'' \<noteq> []" and h2: "trim ''  '' = []"
    by code_simp+
  have v: "''col-'' @ toStringRadix 10 (nowMs sampleEnv) = ''col-1754000000000''"
      "trim ''Blocked'' = ''Blocked''"
      "int (length (columns threeColumnApp)) = 3"
      "''#'' @ toStringRadix 16 (random sampleEnv) = ''#3b82f6''"
    by code_simp+
  from addColumn_spec [of "''Blocked''" sampleEnv threeColumnApp] h1
  have "columns (addColumn sampleEnv (Some ''Blocked'') threeColumnApp) =
     columns threeColumnApp @
       [\<lparr>c_id = ''col-'' @ toStringRadix 10 (nowMs sampleEnv), c_name = trim ''Blocked'',
         c_order = int (length (columns threeColumnApp)),
         c_color = ''#'' @ toStringRadix 16 (random sampleEnv)\<rparr>]"
    by (simp add: showNotification_def)
  then have c1: "columns (addColumn sampleEnv (Some ''Blocked'') threeColumnApp) =
     columns threeColumnApp @
       [\<lparr>c_id = ''col-1754000000000'', c_name = ''Blocked'', c_order = 3,
         c_color = ''#3b82f6''\<rparr>]"
    by (simp only: v)
  from addColumn_spec [of "''  ''" sampleEnv "addColumn sampleEnv (Some ''Blocked'') threeColumnApp"] h2
  have c2: "addColumn sampleEnv (Some ''  '')
     (addColumn sampleEnv (Some ''Blocked'') threeColumnApp) =
   addColumn sampleEnv (Some ''Blocked'') threeColumnApp"
    by blast
  from h1 h2 c1 c2 show ?thesis by blast
qed

subsection \<open>Completion toggle\<close>

text \<open>
  C9. For a task that \<open>find\<close> returns, \<open>toggleTaskCompletion\<close> sets the status \<open>done\<close> and
  the column \<open>col-done\<close> when the status was any string other than \<open>done\<close>, and the status
  \<open>todo\<close> and the column \<open>col-todo\<close> when it was \<open>done\<close>. The columns are not consulted:
  they are left as they were, the tasks after the call are the same for every column
  collection, and where the board has no column with the new id the task refers to no
  column after the call.
\<close>

theorem toggleTaskCompletion_spec:
  assumes "find (\<lambda>t. t_id t = tid) (tasks st) = Some task"
  shows "find (\<lambda>t. t_id t = tid) (tasks (toggleTaskCompletion e tid st)) =
           Some (task\<lparr>status := (if status task = ''done'' then ''todo'' else ''done''),
                      columnId := (if status task = ''done'' then ''col-todo'' else ''col-done''),
                      updatedAt := nowIso e\<rparr>) \<and>
         columns (toggleTaskCompletion e tid st) = columns st \<and>
         tasks (toggleTaskCompletion e tid (st\<lparr>columns := cs\<rparr>)) =
           tasks (toggleTaskCompletion e tid st) \<and>
         (find (\<lambda>c. c_id c = (if status task = ''done'' then ''col-todo'' else ''col-done''))
            (columns st) = None \<longrightarrow>
          (\<exists>t'. find (\<lambda>t. t_id t = tid) (tasks (toggleTaskCompletion e tid st)) = Some t' \<and>
                find (\<lambda>c. c_id c = columnId t') (columns (toggleTaskCompletion e tid st)) = None))"
  using assms
  by (simp add: toggleTaskCompletion_def Let_def showNotification_def addActivity_def
      find_updateFound)

text \<open>On the board without \<open>col-done\<close>: the task in progress becomes done in a column
  that does not exist, and the done task goes back to \<open>col-todo\<close>.\<close>

theorem toggleTaskCompletion_spec_witness:
  "find (\<lambda>t. t_id t = ''task-1'') (tasks noDoneApp) = Some (sampleTasks ! 0) \<and>
   status (sampleTasks ! 0) = ''in-progress'' \<and>
   find (\<lambda>t. t_id t = ''task-1'') (tasks (toggleTaskCompletion sampleEnv ''task-1'' noDoneApp)) =
     Some ((sampleTasks ! 0)\<lparr>status := ''done'', columnId := ''col-done'',
                              updatedAt := nowIso sampleEnv\<rparr>) \<and>
   find (\<lambda>c. c_id c = ''col-done'')
     (columns (toggleTaskCompletion sampleEnv ''task-1'' noDoneApp)) = None \<and>
   find (\<lambda>t. t_id t = ''task-5'') (tasks noDoneApp) = Some (sampleTasks ! 4) \<and>
   status (sampleTasks ! 4) = ''done'' \<and>
   find (\<lambda>t. t_id t = ''task-5'') (tasks (toggleTaskCompletion sampleEnv ''task-5'' noDoneApp)) =
     Some ((sampleTasks ! 4)\<lparr>status := ''todo'', columnId := ''col-todo'',
                              updatedAt := nowIso sampleEnv\<rparr>)"
proof -
  have h: "find (\<lambda>t. t_id t = ''task-1'') (tasks noDoneApp) = Some (sampleTasks ! 0)"
    and s: "status (sampleTasks ! 0) = ''in-progress''"
    and n: "find (\<lambda>c. c_id c = ''col-done'') (columns noDoneApp) = None"
    and h5: "find (\<lambda>t. t_id t = ''task-5'') (tasks noDoneApp) = Some (sampleTasks ! 4)"
    and s5: "status (sampleTasks ! 4) = ''done''"
    by code_simp+
  from toggleTaskCompletion_spec [OF h, of sampleEnv]
  have a: "find (\<lambda>t. t_id t = ''task-1'')
          (tasks (toggleTaskCompletion sampleEnv ''task-1'' noDoneApp)) =
        Some ((sampleTasks ! 0)\<lparr>status := ''done'', columnId := ''col-done'',
                                 updatedAt := nowIso sampleEnv\<rparr>)"
     and b: "columns (toggleTaskCompletion sampleEnv ''task-1'' noDoneApp) = columns noDoneApp"
    by (simp_all add: s)
  from toggleTaskCompletion_spec [OF h5, of sampleEnv]
  have c: "find (\<lambda>t. t_id t = ''task-5'')
          (tasks (toggleTaskCompletion sampleEnv ''task-5'' noDoneApp)) =
        Some ((sampleTasks ! 4)\<lparr>status := ''todo'', columnId := ''col-todo'',
                                 updatedAt := nowIso sampleEnv\<rparr>)"
    by (simp add: s5)
  from h s n h5 s5 a b c show ?thesis by simp
qed

subsection \<open>Saving the form\<close>

lemma saveTask_invalid:
  "validateTaskForm e (readForm e f) \<noteq> [] \<Longrightarrow>
   saveTask e (Some f) st =
     showNotification ''Validation Error'' ''Please fix the errors in the form'' ''error'' st"
  by (simp add: saveTask_def Let_def)

lemma saveTask_edit_tasks:
  assumes "dataset_taskId f = Some tid" "tid \<noteq> []"
    and "validateTaskForm e (readForm e f) = []"
  shows "tasks (saveTask e (Some f) st) =
           updateFound (\<lambda>t. t_id t = tid) (assign (readForm e f)) (tasks st)"
proof (cases "find (\<lambda>t. t_id t = tid) (tasks st)")
  case None
  with assms show ?thesis
    by (simp add: saveTask_def Let_def updateFound_None)
next
  case (Some task)
  with assms show ?thesis
    by (simp add: saveTask_def Let_def showNotification_def addActivity_def)
qed

lemma saveTask_create_tasks:
  assumes "\<not> truthy (dataset_taskId f)" "validateTaskForm e (readForm e f) = []"
  shows "tasks (saveTask e (Some f) st) = tasks st @ [newTask e (readForm e f)]"
  using assms by (simp add: saveTask_def Let_def showNotification_def addActivity_def)

lemma blank_tags: "filter (\<lambda>tag. tag \<noteq> []) (map trim (split CHR '','' [])) = []"
  by (simp add: trim_Nil)

text \<open>
  C10. An edit through \<open>saveTask\<close> (a form with a task id, valid fields, the task found)
  replaces the first task with that id by the same task with the eight properties of the
  form data assigned, and leaves every other element of the task list as it was. The
  edited task keeps its \<open>id\<close> and \<open>createdAt\<close> (and its \<open>status\<close>). The seven form fields
  are written whatever the task held before: a blank description, assignee or due date
  becomes the empty string and blank tags become the empty list.
\<close>

theorem saveTask_edit_frame:
  assumes "dataset_taskId f = Some tid" "tid \<noteq> []"
    and "validateTaskForm e (readForm e f) = []"
    and "find (\<lambda>t. t_id t = tid) (tasks st) = Some task"
  shows "(\<exists>pre post.
            tasks st = pre @ task # post \<and> (\<forall>y\<in>set pre. t_id y \<noteq> tid) \<and>
            tasks (saveTask e (Some f) st) = pre @ assign (readForm e f) task # post) \<and>
         t_id (assign (readForm e f) task) = t_id task \<and>
         createdAt (assign (readForm e f) task) = createdAt task \<and>
         status (assign (readForm e f) task) = status task \<and>
         title (assign (readForm e f) task) = trim (task_title f) \<and>
         description (assign (readForm e f) task) = Some (trim (task_description f)) \<and>
         priority (assign (readForm e f) task) = orElse (task_priority f) ''medium'' \<and>
         assigneeId (assign (readForm e f) task) = Some (task_assignee f) \<and>
         dueDate (assign (readForm e f) task) = Some (task_due_date f) \<and>
         columnId (assign (readForm e f) task) = orElse (task_column f) ''col-backlog'' \<and>
         tags (assign (readForm e f) task) =
           filter (\<lambda>tag. tag \<noteq> []) (map trim (split CHR '','' (task_tags f))) \<and>
         (task_description f = [] \<longrightarrow> description (assign (readForm e f) task) = Some []) \<and>
         (task_assignee f = [] \<longrightarrow> assigneeId (assign (readForm e f) task) = Some []) \<and>
         (task_due_date f = [] \<longrightarrow> dueDate (assign (readForm e f) task) = Some []) \<and>
         (task_tags f = [] \<longrightarrow> tags (assign (readForm e f) task) = [])"
proof -
  from updateFound_split [OF assms(4), of "assign (readForm e f)"]
  obtain pre post where
    "tasks st = pre @ task # post" "\<forall>y\<in>set pre. t_id y \<noteq> tid"
    "updateFound (\<lambda>t. t_id t = tid) (assign (readForm e f)) (tasks st) =
       pre @ assign (readForm e f) task # post"
    by blast
  then have "\<exists>pre post.
            tasks st = pre @ task # post \<and> (\<forall>y\<in>set pre. t_id y \<noteq> tid) \<and>
            tasks (saveTask e (Some f) st) = pre @ assign (readForm e f) task # post"
    using saveTask_edit_tasks [OF assms(1-3), of st] by auto
  then show ?thesis
    by (simp add: assign_def readForm_def orElse_def trim_Nil)
qed

text \<open>The welcome task, which has a description, a tag and no due date, edited with a
  form that holds only the title.\<close>

theorem saveTask_edit_frame_witness:
  "dataset_taskId blankEditForm = Some ''task-1'' \<and> ''task-1'' \<noteq> [] \<and>
   validateTaskForm sampleEnv (readForm sampleEnv blankEditForm) = [] \<and>
   find (\<lambda>t. t_id t = ''task-1'') (tasks (initializeMinimalData sampleEnv)) =
     Some (hd (tasks (initializeMinimalData sampleEnv))) \<and>
   description (hd (tasks (initializeMinimalData sampleEnv))) = Some ''Welcome to TaskFlow!'' \<and>
   description (assign (readForm sampleEnv blankEditForm)
     (hd (tasks (initializeMinimalData sampleEnv)))) = Some [] \<and>
   tags (assign (readForm sampleEnv blankEditForm)
     (hd (tasks (initializeMinimalData sampleEnv)))) = [] \<and>
   tasks (saveTask sampleEnv (Some blankEditForm) (initializeMinimalData sampleEnv)) =
     [\<lparr>title = ''Welcome Task'', description = Some [], priority = ''medium'',
       assigneeId = Some [], dueDate = Some [], columnId = ''col-backlog'', tags = [],
       updatedAt = ''2025-07-31T22:13:20.000Z'', t_id = ''task-1'', status = ''todo'',
       createdAt = ''2025-07-31T22:13:20.000Z''\<rparr>]"
proof -
  have h: "dataset_taskId blankEditForm = Some ''task-1''" "''task-1'' \<noteq> []"
    "validateTaskForm sampleEnv (readForm sampleEnv blankEditForm) = []"
    "find (\<lambda>t. t_id t = ''task-1'') (tasks (initializeMinimalData sampleEnv)) =
       Some (hd (tasks (initializeMinimalData sampleEnv)))"
    by code_simp+
  have b: "task_description blankEditForm = []" "task_tags blankEditForm = []"
    by code_simp+
  have v: "description (hd (tasks (initializeMinimalData sampleEnv))) =
      Some ''Welcome to TaskFlow!''"
    "tasks (saveTask sampleEnv (Some blankEditForm) (initializeMinimalData sampleEnv)) =
     [\<lparr>title = ''Welcome Task'', description = Some [], priority = ''medium'',
       assigneeId = Some [], dueDate = Some [], columnId = ''col-backlog'', tags = [],
       updatedAt = ''2025-07-31T22:13:20.000Z'', t_id = ''task-1'', status = ''todo'',
       createdAt = ''2025-07-31T22:13:20.000Z''\<rparr>]"
    by code_simp+
  from saveTask_edit_frame [OF h] b
  have "description (assign (readForm sampleEnv blankEditForm)
     (hd (tasks (initializeMinimalData sampleEnv)))) = Some []"
   "tags (assign (readForm sampleEnv blankEditForm)
     (hd (tasks (initializeMinimalData sampleEnv)))) = []"
    by blast+
  with h v show ?thesis by blast
qed

subsection \<open>Validation\<close>

lemma validateTaskForm_Nil: "validateTaskForm e d = [] \<longleftrightarrow> specValid e d"
  by (auto simp: validateTaskForm_def specValid_def titleValid_def restValid_def
      split: option.splits)

lemma validateTaskForm_keys:
  "subseq (map fst (validateTaskForm e d)) [''title'', ''description'', ''dueDate'', ''tags'']"
  by (auto simp: validateTaskForm_def split: option.splits)

lemma dueDate_errors:
  fixes d :: taskData and e :: env
  shows "(case dueDate d of
            None \<Rightarrow> []
          | Some s \<Rightarrow>
              if s \<noteq> [] then
                (case dateMs e s of
                   None \<Rightarrow> []
                 | Some due \<Rightarrow>
                     if due < todayMs e
                     then [(''dueDate'', ''Due date cannot be in the past'')]
                     else [])
              else [])
         \<in> {[], [(''dueDate'', ''Due date cannot be in the past'')]}"
  by (auto split: option.splits)

lemma validateTaskForm_title:
  "map_of (validateTaskForm e d) ''title'' =
     (if title d = [] then Some ''Task title is required''
      else if 100 < length (title d) then Some ''Task title must be 100 characters or less''
      else None)"
  using dueDate_errors [where d = d and e = e]
  by (cases "description d") (auto simp: validateTaskForm_def)

text \<open>
  C5. When the form data break a rule of the specification (title missing or longer than
  100 characters, description longer than 500, due date before today, more than 10 tags),
  \<open>validateTaskForm\<close> returns a non-empty error object whose keys are among \<open>title\<close>,
  \<open>description\<close>, \<open>dueDate\<close>, \<open>tags\<close>, and \<open>saveTask\<close> only notifies the validation
  error: tasks, activities, columns and users are as before, for a new task as for an
  edit. A title of 101 characters (as validated, that is after trimming) gives the error
  under \<open>title\<close> and no task is added; a title of 100 characters gives no error under
  \<open>title\<close>, and with the other fields valid the new task is appended with that title.
\<close>

theorem saveTask_validation:
  "(\<not> specValid e (readForm e f) \<longrightarrow>
      validateTaskForm e (readForm e f) \<noteq> [] \<and>
      subseq (map fst (validateTaskForm e (readForm e f)))
        [''title'', ''description'', ''dueDate'', ''tags''] \<and>
      saveTask e (Some f) st =
        showNotification ''Validation Error'' ''Please fix the errors in the form'' ''error'' st \<and>
      tasks (saveTask e (Some f) st) = tasks st \<and>
      activities (saveTask e (Some f) st) = activities st \<and>
      columns (saveTask e (Some f) st) = columns st \<and>
      users (saveTask e (Some f) st) = users st) \<and>
   (length (title (readForm e f)) = 101 \<longrightarrow>
      map_of (validateTaskForm e (readForm e f)) ''title'' =
        Some ''Task title must be 100 characters or less'' \<and>
      tasks (saveTask e (Some f) st) = tasks st) \<and>
   (length (title (readForm e f)) = 100 \<longrightarrow>
      map_of (validateTaskForm e (readForm e f)) ''title'' = None) \<and>
   (length (title (readForm e f)) = 100 \<and>
    restValid e (readForm e f) \<and> \<not> truthy (dataset_taskId f) \<longrightarrow>
      tasks (saveTask e (Some f) st) = tasks st @ [newTask e (readForm e f)] \<and>
      title (newTask e (readForm e f)) = title (readForm e f))"
proof -
  have inv: "\<not> specValid e (readForm e f) \<Longrightarrow>
      saveTask e (Some f) st =
        showNotification ''Validation Error'' ''Please fix the errors in the form'' ''error'' st"
    by (simp add: saveTask_invalid validateTaskForm_Nil)
  have long: "length (title (readForm e f)) = 101 \<Longrightarrow> \<not> specValid e (readForm e f)"
    by (simp add: specValid_def titleValid_def)
  have ok: "length (title (readForm e f)) = 100 \<Longrightarrow>
      restValid e (readForm e f) \<Longrightarrow> specValid e (readForm e f)"
    by (auto simp: specValid_def titleValid_def)
  have c1: "\<not> specValid e (readForm e f) \<longrightarrow>
      validateTaskForm e (readForm e f) \<noteq> [] \<and>
      subseq (map fst (validateTaskForm e (readForm e f)))
        [''title'', ''description'', ''dueDate'', ''tags''] \<and>
      saveTask e (Some f) st =
        showNotification ''Validation Error'' ''Please fix the errors in the form'' ''error'' st \<and>
      tasks (saveTask e (Some f) st) = tasks st \<and>
      activities (saveTask e (Some f) st) = activities st \<and>
      columns (saveTask e (Some f) st) = columns st \<and>
      users (saveTask e (Some f) st) = users st"
    using inv validateTaskForm_keys [of e "readForm e f"]
    by (simp add: validateTaskForm_Nil showNotification_def)
  have c2: "length (title (readForm e f)) = 101 \<longrightarrow>
      map_of (validateTaskForm e (readForm e f)) ''title'' =
        Some ''Task title must be 100 characters or less'' \<and>
      tasks (saveTask e (Some f) st) = tasks st"
    using long c1 by (auto simp: validateTaskForm_title)
  have c3: "length (title (readForm e f)) = 100 \<longrightarrow>
      map_of (validateTaskForm e (readForm e f)) ''title'' = None"
    by (auto simp: validateTaskForm_title)
  have c4: "length (title (readForm e f)) = 100 \<and>
    restValid e (readForm e f) \<and> \<not> truthy (dataset_taskId f) \<longrightarrow>
      tasks (saveTask e (Some f) st) = tasks st @ [newTask e (readForm e f)] \<and>
      title (newTask e (readForm e f)) = title (readForm e f)"
    using ok by (auto simp: validateTaskForm_Nil saveTask_create_tasks newTask_def)
  from c1 c2 c3 c4 show ?thesis by blast
qed

text \<open>New tasks with titles of 101 and of 100 letters on the minimal board.\<close>

theorem saveTask_validation_witness:
  "length (title (readForm sampleEnv (titleForm 101))) = 101 \<and>
   \<not> specValid sampleEnv (readForm sampleEnv (titleForm 101)) \<and>
   validateTaskForm sampleEnv (readForm sampleEnv (titleForm 101)) =
     [(''title'', ''Task title must be 100 characters or less'')] \<and>
   tasks (saveTask sampleEnv (Some (titleForm 101)) (initializeMinimalData sampleEnv)) =
     tasks (initializeMinimalData sampleEnv) \<and>
   activities (saveTask sampleEnv (Some (titleForm 101)) (initializeMinimalData sampleEnv)) =
     activities (initializeMinimalData sampleEnv) \<and>
   length (title (readForm sampleEnv (titleForm 100))) = 100 \<and>
   restValid sampleEnv (readForm sampleEnv (titleForm 100)) \<and>
   \<not> truthy (dataset_taskId (titleForm 100)) \<and>
   tasks (saveTask sampleEnv (Some (titleForm 100)) (initializeMinimalData sampleEnv)) =
     tasks (initializeMinimalData sampleEnv) @
       [newTask sampleEnv (readForm sampleEnv (titleForm 100))] \<and>
   length (tasks (saveTask sampleEnv (Some (titleForm 100)) (initializeMinimalData sampleEnv))) = 2"
proof -
  have h: "length (title (readForm sampleEnv (titleForm 101))) = 101"
    "\<not> specValid sampleEnv (readForm sampleEnv (titleForm 101))"
    "length (title (readForm sampleEnv (titleForm 100))) = 100"
    "restValid sampleEnv (readForm sampleEnv (titleForm 100))"
    "\<not> truthy (dataset_taskId (titleForm 100))"
    by code_simp+
  have v: "validateTaskForm sampleEnv (readForm sampleEnv (titleForm 101)) =
     [(''title'', ''Task title must be 100 characters or less'')]"
    "length (tasks (initializeMinimalData sampleEnv)) = 1"
    by code_simp+
  note t101 = saveTask_validation [of sampleEnv "titleForm 101" "initializeMinimalData sampleEnv"]
  note t100 = saveTask_validation [of sampleEnv "titleForm 100" "initializeMinimalData sampleEnv"]
  from t101 h have a: 
   "tasks (saveTask sampleEnv (Some (titleForm 101)) (initializeMinimalData sampleEnv)) =
     tasks (initializeMinimalData sampleEnv)"
   "activities (saveTask sampleEnv (Some (titleForm 101)) (initializeMinimalData sampleEnv)) =
     activities (initializeMinimalData sampleEnv)"
    by blast+
  from t100 h have b:
   "tasks (saveTask sampleEnv (Some (titleForm 100)) (initializeMinimalData sampleEnv)) =
     tasks (initializeMinimalData sampleEnv) @
       [newTask sampleEnv (readForm sampleEnv (titleForm 100))]"
    by blast
  then have c: "length (tasks (saveTask sampleEnv (Some (titleForm 100))
      (initializeMinimalData sampleEnv))) = 2"
    by (simp add: v)
  from h v a b c show ?thesis by blast
qed

subsection \<open>The status invariant\<close>

text \<open>Moving a task, toggling its completion and creating a task derive the status from
  the column id, so they keep the invariant on boards whose column ids begin with
  \<open>col-\<close>.\<close>

lemma replace_prefix: "p \<noteq> [] \<Longrightarrow> replace (p @ zs) p r = r @ zs"
  by (cases p) simp_all

lemma stripPrefix_append: "stripPrefix p (p @ zs) = zs"
  by (simp add: stripPrefix_def)

lemma replace_col:
  assumes "prefix ''col-'' c"
  shows "replace c ''col-'' [] = stripPrefix ''col-'' c"
proof -
  from assms obtain zs where c: "c = ''col-'' @ zs"
    by (auto simp: prefix_def)
  have "replace (''col-'' @ zs) ''col-'' [] = [] @ zs"
    by (rule replace_prefix) simp
  moreover have "stripPrefix ''col-'' (''col-'' @ zs) = zs"
    by (rule stripPrefix_append)
  ultimately show ?thesis
    unfolding c by simp
qed

lemma list_all_updateFound:
  "list_all P xs \<Longrightarrow> (\<And>x. p x \<Longrightarrow> P (g x)) \<Longrightarrow> list_all P (updateFound p g xs)"
  by (induction xs) auto

lemma moveTask_statusDerived:
  assumes "list_all statusDerived (tasks st)" "prefix ''col-'' c"
  shows "list_all statusDerived (tasks (moveTask e tid c st))"
proof -
  have "list_all statusDerived
          (updateFound (\<lambda>t. t_id t = tid)
             (\<lambda>t. t\<lparr>columnId := c, status := replace c ''col-'' [], updatedAt := nowIso e\<rparr>)
             (tasks st))"
    using assms by (intro list_all_updateFound) (simp_all add: statusDerived_def replace_col)
  with assms(1) show ?thesis
    by (simp add: moveTask_def Let_def showNotification_def addActivity_def
        split: option.splits)
qed

lemma toggleTaskCompletion_statusDerived:
  assumes "list_all statusDerived (tasks st)"
  shows "list_all statusDerived (tasks (toggleTaskCompletion e tid st))"
proof -
  have "list_all statusDerived
          (updateFound (\<lambda>t. t_id t = tid)
             (\<lambda>t. t\<lparr>status := s, columnId := (if s = ''done'' then ''col-done'' else ''col-todo''),
                     updatedAt := nowIso e\<rparr>)
             (tasks st))" if "s = ''done'' \<or> s = ''todo''" for s
    using assms that
    by (intro list_all_updateFound) (auto simp: statusDerived_def stripPrefix_def)
  with assms show ?thesis
    by (simp add: toggleTaskCompletion_def Let_def showNotification_def addActivity_def
        split: option.splits)
qed

lemma createTask_statusDerived:
  assumes "list_all statusDerived (tasks st)" "\<not> truthy (dataset_taskId f)"
    and "prefix ''col-'' (columnId (readForm e f))"
  shows "list_all statusDerived (tasks (saveTask e (Some f) st))"
proof (cases "validateTaskForm e (readForm e f) = []")
  case True
  with assms show ?thesis
    by (simp add: saveTask_create_tasks statusDerived_def newTask_def replace_col)
next
  case False
  with assms(1) show ?thesis
    by (simp add: saveTask_invalid showNotification_def)
qed

text \<open>
  C1. After every command each task has the status that its column id gives with the
  prefix \<open>col-\<close> stripped; in particular an edit that changes the column re-derives the
  status. The edit path of \<open>saveTask\<close> does not: \<open>Object.assign\<close> writes the column id of
  the form over the task and leaves the status. On the minimal board, where the invariant
  holds, the edit of the welcome task with the column changed to \<open>col-done\<close> passes the
  validation and leaves the task in \<open>col-done\<close> with the status \<open>todo\<close>.
\<close>

theorem saveTask_edit_status_stale:
  "list_all statusDerived (tasks (initializeMinimalData sampleEnv)) \<and>
   validateTaskForm sampleEnv (readForm sampleEnv columnEditForm) = [] \<and>
   map (\<lambda>t. (t_id t, columnId t, status t))
     (tasks (saveTask sampleEnv (Some columnEditForm) (initializeMinimalData sampleEnv))) =
     [(''task-1'', ''col-done'', ''todo'')] \<and>
   stripPrefix ''col-'' ''col-done'' = ''done'' \<and>
   \<not> list_all statusDerived
       (tasks (saveTask sampleEnv (Some columnEditForm) (initializeMinimalData sampleEnv)))"
  by code_simp

subsection \<open>Moving a task to its current column\<close>

lemma find_Some_holds: "find p xs = Some x \<Longrightarrow> p x"
  by (induction xs) (auto split: if_splits)

text \<open>
  C2 as stated: \<open>moveTask(t.id, c.id)\<close> with \<open>c.id\<close> the column of \<open>t\<close> is a no-op. It is
  not: \<open>moveTask\<close> does not compare the two columns. On the minimal board, one second
  after its creation, moving the welcome task to \<open>col-todo\<close>, where it is, sets its
  \<open>updatedAt\<close> to the new clock reading and logs a move from To Do to To Do.
\<close>

theorem moveTask_same_column_counterexample:
  "map (\<lambda>t. (t_id t, columnId t, updatedAt t)) (tasks (initializeMinimalData sampleEnv)) =
     [(''task-1'', ''col-todo'', ''2025-07-31T22:13:20.000Z'')] \<and>
   activities (initializeMinimalData sampleEnv) = [] \<and>
   map (\<lambda>t. (t_id t, columnId t, updatedAt t))
     (tasks (moveTask laterEnv ''task-1'' ''col-todo'' (initializeMinimalData sampleEnv))) =
     [(''task-1'', ''col-todo'', ''2025-07-31T22:13:21.000Z'')] \<and>
   map (\<lambda>a. (a_type a, message a))
     (activities (moveTask laterEnv ''task-1'' ''col-todo'' (initializeMinimalData sampleEnv))) =
     [(''task_moved'',
       ''Deepanshu moved '' @ dq @ ''Welcome Task'' @ dq @ '' from To Do to To Do'')]"
  by code_simp

text \<open>
  C2, amended. The comparison is in the drop handler, the caller of \<open>moveTask\<close>: a drop
  of the dragged task on its current column returns the state as it is, so no activity is
  appended and no field of a task changes; a drop on another column is the call of
  \<open>moveTask\<close>.
\<close>

theorem drop_on_current_column:
  assumes "find (\<lambda>t. t_id t = tid) (tasks st) = Some t"
  shows "drop_on e (columnId t) (dragstart tid st) = dragstart tid st \<and>
         tasks (drop_on e (columnId t) (dragstart tid st)) = tasks st \<and>
         activities (drop_on e (columnId t) (dragstart tid st)) = activities st \<and>
         (c \<noteq> columnId t \<longrightarrow>
            drop_on e c (dragstart tid st) = moveTask e tid c (dragstart tid st))"
  using assms find_Some_holds [OF assms]
  by (simp add: drop_on_def dragstart_def)

text \<open>The welcome task dragged and dropped on \<open>col-todo\<close>, one second after its
  creation.\<close>

theorem drop_on_current_column_witness:
  "find (\<lambda>t. t_id t = ''task-1'') (tasks (initializeMinimalData sampleEnv)) =
     Some (hd (tasks (initializeMinimalData sampleEnv))) \<and>
   columnId (hd (tasks (initializeMinimalData sampleEnv))) = ''col-todo'' \<and>
   drop_on laterEnv ''col-todo'' (dragstart ''task-1'' (initializeMinimalData sampleEnv)) =
     dragstart ''task-1'' (initializeMinimalData sampleEnv) \<and>
   activities
     (drop_on laterEnv ''col-todo'' (dragstart ''task-1'' (initializeMinimalData sampleEnv))) = []"
proof -
  have h: "find (\<lambda>t. t_id t = ''task-1'') (tasks (initializeMinimalData sampleEnv)) =
     Some (hd (tasks (initializeMinimalData sampleEnv)))"
    and c: "columnId (hd (tasks (initializeMinimalData sampleEnv))) = ''col-todo''"
    and a: "activities (initializeMinimalData sampleEnv) = []"
    by code_simp+
  from drop_on_current_column [OF h, of laterEnv] show ?thesis
    unfolding c a using h c by blast
qed

subsection \<open>Applying an edit twice\<close>

lemma assign_assign: "assign d2 (assign d1 t) = assign d2 t"
  by (simp add: assign_def)

lemma t_id_assign: "t_id (assign d t) = t_id t"
  by (simp add: assign_def)

lemma updateFound_twice:
  "(\<And>x. p x \<Longrightarrow> p (g x)) \<Longrightarrow>
   updateFound p h (updateFound p g xs) = updateFound p (\<lambda>x. h (g x)) xs"
  by (induction xs) auto

lemma readForm_clock: "readForm e2 f = (readForm e1 f)\<lparr>updatedAt := nowIso e2\<rparr>"
  by (simp add: readForm_def)

lemma assign_clock: "assign (readForm e2 f) t = (assign (readForm e1 f) t)\<lparr>updatedAt := nowIso e2\<rparr>"
  by (simp add: assign_def readForm_def)

text \<open>
  C4 as stated: the second application of the same edit leaves the task as the first
  did, but for \<open>updatedAt\<close>, which strictly increases with each application. The edit
  writes the reading of the clock, whatever the task held: two applications under the
  same reading (within one millisecond) give the same \<open>updatedAt\<close>.
\<close>

theorem saveTask_edit_twice_counterexample:
  "map updatedAt
     (tasks (saveTask laterEnv (Some columnEditForm) (initializeMinimalData sampleEnv))) =
     [''2025-07-31T22:13:21.000Z''] \<and>
   map updatedAt
     (tasks (saveTask laterEnv (Some columnEditForm)
        (saveTask laterEnv (Some columnEditForm) (initializeMinimalData sampleEnv)))) =
     [''2025-07-31T22:13:21.000Z''] \<and>
   \<not> hd (map updatedAt
          (tasks (saveTask laterEnv (Some columnEditForm) (initializeMinimalData sampleEnv))))
      < hd (map updatedAt
          (tasks (saveTask laterEnv (Some columnEditForm)
             (saveTask laterEnv (Some columnEditForm) (initializeMinimalData sampleEnv)))))"
  by code_simp

text \<open>
  C4, amended. Applying the same valid edit twice to an existing task gives the task list
  that one application at the second clock reading gives: the task after the second
  application is the task after the first with \<open>updatedAt\<close> replaced. After each
  application \<open>updatedAt\<close> is the clock reading (\<open>new Date().toISOString()\<close>) of that
  application, so it increases strictly exactly when the second reading is later than the
  first.
\<close>

theorem saveTask_edit_twice:
  assumes "dataset_taskId f = Some tid" "tid \<noteq> []"
    and "validateTaskForm e1 (readForm e1 f) = []"
    and "validateTaskForm e2 (readForm e2 f) = []"
    and "find (\<lambda>t. t_id t = tid) (tasks st) = Some task"
  shows "tasks (saveTask e2 (Some f) (saveTask e1 (Some f) st)) =
           tasks (saveTask e2 (Some f) st) \<and>
         find (\<lambda>t. t_id t = tid) (tasks (saveTask e1 (Some f) st)) =
           Some (assign (readForm e1 f) task) \<and>
         find (\<lambda>t. t_id t = tid) (tasks (saveTask e2 (Some f) (saveTask e1 (Some f) st))) =
           Some ((assign (readForm e1 f) task)\<lparr>updatedAt := nowIso e2\<rparr>) \<and>
         updatedAt (assign (readForm e1 f) task) = nowIso e1 \<and>
         (updatedAt (assign (readForm e1 f) task)
            < updatedAt ((assign (readForm e1 f) task)\<lparr>updatedAt := nowIso e2\<rparr>)) =
           (nowIso e1 < nowIso e2)"
proof -
  let ?p = "\<lambda>t. t_id t = tid"
  have once: "tasks (saveTask e (Some f) s) = updateFound ?p (assign (readForm e f)) (tasks s)"
    if "validateTaskForm e (readForm e f) = []" for e s
    using assms(1,2) that by (rule saveTask_edit_tasks)
  have keep: "?p (assign d x)" if "?p x" for d x
    using that by (simp add: t_id_assign)
  have "tasks (saveTask e2 (Some f) (saveTask e1 (Some f) st)) =
        updateFound ?p (\<lambda>x. assign (readForm e2 f) (assign (readForm e1 f) x)) (tasks st)"
    by (simp add: once assms(3,4) updateFound_twice keep)
  then have twice: "tasks (saveTask e2 (Some f) (saveTask e1 (Some f) st)) =
      tasks (saveTask e2 (Some f) st)"
    by (simp add: once assms(4) assign_assign)
  have f1: "find ?p (tasks (saveTask e1 (Some f) st)) = Some (assign (readForm e1 f) task)"
    by (simp add: once assms(3,5) find_updateFound keep)
  have "find ?p (tasks (saveTask e2 (Some f) st)) = Some (assign (readForm e2 f) task)"
    by (simp add: once assms(4,5) find_updateFound keep)
  then have f2: "find ?p (tasks (saveTask e2 (Some f) (saveTask e1 (Some f) st))) =
      Some ((assign (readForm e1 f) task)\<lparr>updatedAt := nowIso e2\<rparr>)"
    by (simp only: twice assign_clock [of e2 f task e1])
  have u: "updatedAt (assign (readForm e1 f) task) = nowIso e1"
    by (simp add: assign_def readForm_def)
  from twice f1 f2 u show ?thesis by simp
qed

text \<open>The edit of the welcome task applied at the sample clock reading and again one
  second later.\<close>

theorem saveTask_edit_twice_witness:
  "dataset_taskId columnEditForm = Some ''task-1'' \<and> ''task-1'' \<noteq> [] \<and>
   validateTaskForm sampleEnv (readForm sampleEnv columnEditForm) = [] \<and>
   validateTaskForm laterEnv (readForm laterEnv columnEditForm) = [] \<and>
   find (\<lambda>t. t_id t = ''task-1'') (tasks (initializeMinimalData sampleEnv)) =
     Some (hd (tasks (initializeMinimalData sampleEnv))) \<and>
   tasks (saveTask laterEnv (Some columnEditForm)
           (saveTask sampleEnv (Some columnEditForm) (initializeMinimalData sampleEnv))) =
     tasks (saveTask laterEnv (Some columnEditForm) (initializeMinimalData sampleEnv)) \<and>
   map updatedAt (tasks (saveTask laterEnv (Some columnEditForm)
           (saveTask sampleEnv (Some columnEditForm) (initializeMinimalData sampleEnv)))) =
     [''2025-07-31T22:13:21.000Z''] \<and>
   nowIso sampleEnv < nowIso laterEnv"
proof -
  have h: "dataset_taskId columnEditForm = Some ''task-1''" "''task-1'' \<noteq> []"
    "validateTaskForm sampleEnv (readForm sampleEnv columnEditForm) = []"
    "validateTaskForm laterEnv (readForm laterEnv columnEditForm) = []"
    "find (\<lambda>t. t_id t = ''task-1'') (tasks (initializeMinimalData sampleEnv)) =
       Some (hd (tasks (initializeMinimalData sampleEnv)))"
    by code_simp+
  have v: "map updatedAt
       (tasks (saveTask laterEnv (Some columnEditForm) (initializeMinimalData sampleEnv))) =
     [''2025-07-31T22:13:21.000Z'']"
    "nowIso sampleEnv < nowIso laterEnv"
    by code_simp+
  from saveTask_edit_twice [OF h]
  have t: "tasks (saveTask laterEnv (Some columnEditForm)
           (saveTask sampleEnv (Some columnEditForm) (initializeMinimalData sampleEnv))) =
     tasks (saveTask laterEnv (Some columnEditForm) (initializeMinimalData sampleEnv))"
    by blast
  from h v t show ?thesis by (simp only: simp_thms)
qed

subsection \<open>The collections as JSON\<close>

text \<open>Reading back the JSON form of a record gives the record.\<close>

lemma those_map_comp:
  "(\<And>x. f (g x) = Some x) \<Longrightarrow> those (map (f \<circ> g) xs) = Some xs"
  by (induction xs) simp_all

lemma those_map_map:
  "(\<And>x. f (g x) = Some x) \<Longrightarrow> those (map f (map g xs)) = Some xs"
  by (simp add: those_map_comp)

lemma str_of_json_JStr: "those (map (str_of_json \<circ> JStr) xs) = Some xs"
  by (rule those_map_comp) simp

lemma task_of_to_json: "task_of_json (task_to_json t) = Some t"
proof (cases t)
  case (fields ti de pr asg du co tg up i s cr)
  then show ?thesis
    by (cases de; cases asg; cases du)
       (simp_all add: task_to_json_def optProp_def strField_def optStrField_def
          strArrayField_def str_of_json_JStr)
qed

lemma column_of_to_json: "column_of_json (column_to_json c) = Some c"
  by (simp add: column_to_json_def strField_def numField_def)

lemma user_of_to_json: "user_of_json (user_to_json u) = Some u"
  by (simp add: user_to_json_def strField_def boolField_def)

lemma activity_of_to_json: "activity_of_json (activity_to_json a) = Some a"
  by (cases a; cases "taskId a")
     (simp_all add: activity_to_json_def strField_def nullableStrField_def)

subsection \<open>Export and import\<close>

lemma arrayProp_exportDoc:
  "arrayProp (exportDoc e st) ''tasks'' = Some (map task_to_json (tasks st))"
  "arrayProp (exportDoc e st) ''columns'' = Some (map column_to_json (columns st))"
  "arrayProp (exportDoc e st) ''users'' = Some (map user_to_json (users st))"
  by (simp_all add: exportDoc_def)

lemma importData_exportDoc:
  assumes "parse text = Some (exportDoc e st)"
  shows "importData parse text st0 =
           Some (showNotification ''Import Successful'' ''Data has been imported successfully''
                   ''success''
                   (st0\<lparr>tasks := tasks st, columns := columns st, users := users st\<rparr>))"
proof -
  have "exportDoc e st \<noteq> JNull"
    by (simp add: exportDoc_def)
  then obtain kvs where k: "exportDoc e st = JObj kvs"
    by (simp add: exportDoc_def)
  have t: "those (map task_of_json (map task_to_json (tasks st))) = Some (tasks st)"
    by (rule those_map_map) (rule task_of_to_json)
  have c: "those (map column_of_json (map column_to_json (columns st))) = Some (columns st)"
    by (rule those_map_map) (rule column_of_to_json)
  have u: "those (map user_of_json (map user_to_json (users st))) = Some (users st)"
    by (rule those_map_map) (rule user_of_to_json)
  show ?thesis
    unfolding importData_def assms
    by (simp add: arrayProp_exportDoc [of e st, unfolded k] k t c u
        del: map_map arrayProp.simps)
qed

text \<open>
  C6. For every application state, importing the document that \<open>exportData\<close> produced
  from it stores the same tasks, columns and users: the same records with the same ids and
  field values, in the same order, whatever the importing session held before. The
  runtime's part is the hypothesis: \<open>JSON.parse\<close> reads the text that \<open>JSON.stringify\<close>
  printed for the exported object back as that object.
\<close>

theorem import_export_roundtrip:
  assumes "parse (stringify (exportDoc e st)) = Some (exportDoc e st)"
  shows "\<exists>st'. importData parse (fst (exportData stringify e st)) st0 = Some st' \<and>
               tasks st' = tasks st \<and> columns st' = columns st \<and> users st' = users st"
proof -
  have "fst (exportData stringify e st) = stringify (exportDoc e st)"
    by (simp add: exportData_def)
  with importData_exportDoc [of parse "stringify (exportDoc e st)" e st st0] assms
  show ?thesis
    by (simp add: showNotification_def)
qed

text \<open>The backup of the sample board imported into a fresh minimal session.\<close>

theorem import_export_roundtrip_witness:
  "sampleParse (sampleStringify (exportDoc sampleEnv runningApp)) =
     Some (exportDoc sampleEnv runningApp) \<and>
   (\<exists>st'. importData sampleParse (fst (exportData sampleStringify sampleEnv runningApp))
            (initializeMinimalData laterEnv) = Some st' \<and>
          tasks st' = sampleTasks \<and> columns st' = sampleColumns \<and>
          users st' = users runningApp)"
proof -
  have h: "sampleParse (sampleStringify (exportDoc sampleEnv runningApp)) =
     Some (exportDoc sampleEnv runningApp)"
    by code_simp
  have v: "tasks runningApp = sampleTasks" "columns runningApp = sampleColumns"
    by code_simp+
  from import_export_roundtrip
         [of sampleParse sampleStringify sampleEnv runningApp "initializeMinimalData laterEnv"] h
  show ?thesis
    unfolding v by blast
qed

subsection \<open>Cross-tab updates\<close>






end
